theory Spec2Isabelle
  imports Complex_Main
begin

section \<open>Competency measures of student skills (modules/skill\_map/competency.py)\<close>

text \<open>
  A shallow embedding of \<^verbatim>\<open>competency.py\<close>. Python exceptions are values of the type
  \<open>error\<close>; a function that may raise returns \<open>error + 'a\<close> with \<open>Inl\<close> for the raise.
  Objects mutated in place (the DTO, a measure instance, the datastore) are passed in and
  returned updated.
\<close>

subsection \<open>Exceptions and decoded JSON values\<close>

datatype error =
    AssertionError
  | AttributeError
  | KeyError
  | TypeError
  | IndexError
  | ValueError
  | NotImplementedError

text \<open>
  What \<^verbatim>\<open>transforms.loads\<close> produces, and what scores and question ids are made of: the
  Python values of a decoded JSON text. A \<^verbatim>\<open>dict\<close> is an association list with distinct
  keys, in the order in which Python iterates over it. A \<^verbatim>\<open>float\<close> is the rational number
  it denotes (no NaN, no infinity, no rounding).
\<close>

datatype jval =
    JNull
  | JBool bool
  | JInt int
  | JFloat rat
  | JStr string
  | JList "jval list"
  | JDict "(string \<times> jval) list"

text \<open>\<^verbatim>\<open>x >= cutoff\<close> for a float cutoff, as Python 2 orders values of mixed types:
  \<^verbatim>\<open>None\<close> is below every number, a \<^verbatim>\<open>bool\<close> is the integer 0 or 1, and strings, lists
  and dicts are above every number.\<close>

fun py_ge :: "jval \<Rightarrow> rat \<Rightarrow> bool" where
  "py_ge JNull c = False"
| "py_ge (JBool b) c = (c \<le> (if b then 1 else 0))"
| "py_ge (JInt i) c = (c \<le> of_int i)"
| "py_ge (JFloat q) c = (c \<le> q)"
| "py_ge (JStr s) c = True"
| "py_ge (JList xs) c = True"
| "py_ge (JDict kvs) c = True"

subsection \<open>CompetencyMeasureDto\<close>

text \<open>An event record, the dict built by \<^verbatim>\<open>BaseCompetencyMeasure.update\<close>; \<open>JNull\<close> is
  \<^verbatim>\<open>None\<close>, the default of every argument but the score.\<close>

record event =
  normalized_score :: jval
  unit_id :: jval
  lesson_id :: jval
  block_id :: jval
  timestamp :: jval

text \<open>The document \<^verbatim>\<open>{"data": {...}, "events": [...]}\<close>. Either key may be absent
  (\<open>None\<close>): \<^verbatim>\<open>setdefault\<close> creates it on the first write. The values under \<^verbatim>\<open>data\<close>
  are the integers the success-rate measure keeps there.\<close>

record dto_dict =
  data :: "(string \<rightharpoonup> int) option"
  events :: "event list option"

record CompetencyMeasureDto =
  dto_id :: string
  dict :: dto_dict

definition empty_dict :: dto_dict where
  "empty_dict = \<lparr>data = None, events = None\<rparr>"

definition get_data :: "CompetencyMeasureDto \<Rightarrow> string \<Rightarrow> int option" where
  "get_data d property_name =
     (case data (dict d) of None \<Rightarrow> None | Some m \<Rightarrow> m property_name)"

definition set_data :: "CompetencyMeasureDto \<Rightarrow> string \<Rightarrow> int \<Rightarrow> CompetencyMeasureDto" where
  "set_data d property_name property_value =
     d\<lparr>dict := (dict d)\<lparr>data :=
        Some ((case data (dict d) of None \<Rightarrow> Map.empty | Some m \<Rightarrow> m)
                (property_name \<mapsto> property_value))\<rparr>\<rparr>"

definition append_event :: "CompetencyMeasureDto \<Rightarrow> event \<Rightarrow> CompetencyMeasureDto" where
  "append_event d e =
     d\<lparr>dict := (dict d)\<lparr>events :=
        Some ((case events (dict d) of None \<Rightarrow> [] | Some es \<Rightarrow> es) @ [e])\<rparr>\<rparr>"

definition Dto_get_events_list :: "CompetencyMeasureDto \<Rightarrow> event list" where
  "Dto_get_events_list d = (case events (dict d) of None \<Rightarrow> [] | Some es \<Rightarrow> es)"

subsection \<open>CompetencyMeasureEntity: the composite key\<close>

definition create_key_name :: "string \<Rightarrow> string \<Rightarrow> string \<Rightarrow> error + string" where
  "create_key_name user_id skill_id class_name =
     (if CHR '':'' \<in> set (user_id @ skill_id @ class_name) then Inl AssertionError
      else Inr (user_id @ '':'' @ skill_id @ '':'' @ class_name))"

text \<open>\<^verbatim>\<open>s.split(sep, maxsplit)\<close> for a separator of one character: at most \<open>maxsplit\<close>
  cuts, from the left.\<close>

fun py_split :: "char \<Rightarrow> nat \<Rightarrow> string \<Rightarrow> string list" where
  "py_split sep 0 s = [s]"
| "py_split sep (Suc n) s =
     (if sep \<in> set s
      then takeWhile (\<lambda>c. c \<noteq> sep) s # py_split sep n (tl (dropWhile (\<lambda>c. c \<noteq> sep) s))
      else [s])"

text \<open>The first statement of \<^verbatim>\<open>safe_key\<close>: the key name is split and unpacked into three
  names, which raises \<^verbatim>\<open>ValueError\<close> unless the split has exactly three parts.\<close>

definition split_key_name :: "string \<Rightarrow> error + (string \<times> string \<times> string)" where
  "split_key_name name =
     (case py_split (CHR '':'') 2 name of
        [user_id, skill_id, class_name] \<Rightarrow> Inr (user_id, skill_id, class_name)
      | _ \<Rightarrow> Inl ValueError)"

text \<open>\<^verbatim>\<open>safe_key\<close>, as the name of the key it returns (the kind is fixed).\<close>

definition safe_key :: "string \<Rightarrow> (string \<Rightarrow> string) \<Rightarrow> error + string" where
  "safe_key name transform_fn =
     (case split_key_name name of
        Inl e \<Rightarrow> Inl e
      | Inr (user_id, skill_id, class_name) \<Rightarrow>
          create_key_name (transform_fn user_id) skill_id class_name)"

subsection \<open>CompetencyMeasureDao\<close>

type_synonym store = "string \<rightharpoonup> dto_dict"

text \<open>Modelled from the spec: \<^verbatim>\<open>models.BaseJsonDao\<close> is not part of the source file. The
  Measure State Store is \<^verbatim>\<open>get(key) -> document | absent\<close> and \<^verbatim>\<open>put(key, document)\<close>,
  with the composite key name as key.\<close>

definition Dao_load :: "store \<Rightarrow> string \<Rightarrow> CompetencyMeasureDto option" where
  "Dao_load st resource_key =
     (case st resource_key of
        None \<Rightarrow> None
      | Some doc \<Rightarrow> Some \<lparr>dto_id = resource_key, dict = doc\<rparr>)"

definition Dao_save :: "store \<Rightarrow> CompetencyMeasureDto \<Rightarrow> store" where
  "Dao_save st d = st(dto_id d \<mapsto> dict d)"

subsection \<open>BaseCompetencyMeasure and SuccessRateCompetencyMeasure\<close>

datatype measure_class = BaseCompetencyMeasure | SuccessRateCompetencyMeasure

fun class_name_of :: "measure_class \<Rightarrow> string" where
  "class_name_of BaseCompetencyMeasure = ''BaseCompetencyMeasure''"
| "class_name_of SuccessRateCompetencyMeasure = ''SuccessRateCompetencyMeasure''"

record measure =
  cls :: measure_class
  user_id :: string
  dto :: "CompetencyMeasureDto option"

definition CORRECT_INCORRECT_CUTOFF :: rat where
  "CORRECT_INCORRECT_CUTOFF = 1 / 2"

definition CORRECT_KEY :: string where
  "CORRECT_KEY = ''correct''"

definition COUNT_KEY :: string where
  "COUNT_KEY = ''count''"

text \<open>\<^verbatim>\<open>__init__\<close>\<close>

definition init :: "measure_class \<Rightarrow> string \<Rightarrow> measure" where
  "init c uid = \<lparr>cls = c, user_id = uid, dto = None\<rparr>"

definition load :: "store \<Rightarrow> measure \<Rightarrow> string \<Rightarrow> error + measure" where
  "load st m skill_id =
     (case create_key_name (user_id m) skill_id (class_name_of (cls m)) of
        Inl e \<Rightarrow> Inl e
      | Inr resource_key \<Rightarrow>
          (case Dao_load st resource_key of
             None \<Rightarrow> Inr (m\<lparr>dto := Some \<lparr>dto_id = resource_key, dict = empty_dict\<rparr>\<rparr>)
           | Some d \<Rightarrow> Inr (m\<lparr>dto := Some d\<rparr>)))"

text \<open>\<^verbatim>\<open>save\<close> returns the instance, its handle cleared, and the datastore.\<close>

definition save :: "store \<Rightarrow> measure \<Rightarrow> error + (measure \<times> store)" where
  "save st m =
     (case dto m of
        None \<Rightarrow> Inl AssertionError
      | Some d \<Rightarrow> Inr (m\<lparr>dto := None\<rparr>, Dao_save st d))"

text \<open>The arguments of \<^verbatim>\<open>update\<close> are exactly the fields of the event record it logs, so
  the model takes them as one \<open>event\<close>. \<open>score_event s\<close> is the call \<^verbatim>\<open>update(s)\<close>.\<close>

definition score_event :: "jval \<Rightarrow> event" where
  "score_event s =
     \<lparr>normalized_score = s, unit_id = JNull, lesson_id = JNull, block_id = JNull,
      timestamp = JNull\<rparr>"

definition Base_update :: "measure \<Rightarrow> event \<Rightarrow> error + measure" where
  "Base_update m e =
     (case dto m of
        None \<Rightarrow> Inl AssertionError
      | Some d \<Rightarrow> Inr (m\<lparr>dto := Some (append_event d e)\<rparr>))"

text \<open>\<^verbatim>\<open>x or 0\<close> on the result of \<^verbatim>\<open>get_data\<close>.\<close>

definition or_0 :: "int option \<Rightarrow> int" where
  "or_0 x = (case x of None \<Rightarrow> 0 | Some v \<Rightarrow> v)"

text \<open>The statements of \<^verbatim>\<open>SuccessRateCompetencyMeasure.update\<close> after the call to the
  base class.\<close>

definition update_summary :: "CompetencyMeasureDto \<Rightarrow> jval \<Rightarrow> CompetencyMeasureDto" where
  "update_summary d score =
     (let count = or_0 (get_data d COUNT_KEY);
          d1 = set_data d COUNT_KEY (count + 1)
      in if py_ge score CORRECT_INCORRECT_CUTOFF
         then (let correct = or_0 (get_data d1 CORRECT_KEY)
               in set_data d1 CORRECT_KEY (correct + 1))
         else d1)"

definition SuccessRate_update :: "measure \<Rightarrow> event \<Rightarrow> error + measure" where
  "SuccessRate_update m e =
     (case Base_update m e of
        Inl err \<Rightarrow> Inl err
      | Inr m1 \<Rightarrow>
          (case dto m1 of
             None \<Rightarrow> Inl AttributeError
           | Some d \<Rightarrow> Inr (m1\<lparr>dto := Some (update_summary d (normalized_score e))\<rparr>)))"

text \<open>Method dispatch on the class of the instance.\<close>

definition update :: "measure \<Rightarrow> event \<Rightarrow> error + measure" where
  "update m e =
     (case cls m of
        BaseCompetencyMeasure \<Rightarrow> Base_update m e
      | SuccessRateCompetencyMeasure \<Rightarrow> SuccessRate_update m e)"

definition get_skill_score :: "measure \<Rightarrow> error + rat" where
  "get_skill_score m =
     (case cls m of
        BaseCompetencyMeasure \<Rightarrow> Inl NotImplementedError
      | SuccessRateCompetencyMeasure \<Rightarrow>
          (case dto m of
             None \<Rightarrow> Inl AttributeError
           | Some d \<Rightarrow>
               (let correct = or_0 (get_data d CORRECT_KEY);
                    count = or_0 (get_data d COUNT_KEY)
                in Inr (if count \<noteq> 0 then of_int correct / of_int count else 0))))"

definition get_events_list :: "measure \<Rightarrow> error + event list" where
  "get_events_list m =
     (case dto m of
        None \<Rightarrow> Inl AssertionError
      | Some d \<Rightarrow> Inr (Dto_get_events_list d))"

text \<open>A sequence of calls to \<^verbatim>\<open>update\<close> on one instance; the first raise ends it.\<close>

fun update_seq :: "measure \<Rightarrow> event list \<Rightarrow> error + measure" where
  "update_seq m [] = Inr m"
| "update_seq m (e # es) =
     (case update m e of Inl err \<Rightarrow> Inl err | Inr m1 \<Rightarrow> update_seq m1 es)"

subsection \<open>Registry and its Updater\<close>

text \<open>\<^verbatim>\<open>Registry._registry\<close>, the list of registered classes in registration order, is a
  parameter of the functions that read it.\<close>

type_synonym registry = "measure_class list"

fun get_updater :: "registry \<Rightarrow> store \<Rightarrow> string \<Rightarrow> string \<Rightarrow> error + measure list" where
  "get_updater [] st uid skill_id = Inr []"
| "get_updater (c # cs) st uid skill_id =
     (case load st (init c uid) skill_id of
        Inl e \<Rightarrow> Inl e
      | Inr m \<Rightarrow>
          (case get_updater cs st uid skill_id of
             Inl e \<Rightarrow> Inl e
           | Inr ms \<Rightarrow> Inr (m # ms)))"

fun Updater_update :: "measure list \<Rightarrow> jval \<Rightarrow> error + measure list" where
  "Updater_update [] s = Inr []"
| "Updater_update (m # ms) s =
     (case update m (score_event s) of
        Inl e \<Rightarrow> Inl e
      | Inr m1 \<Rightarrow>
          (case Updater_update ms s of
             Inl e \<Rightarrow> Inl e
           | Inr ms1 \<Rightarrow> Inr (m1 # ms1)))"

text \<open>\<^verbatim>\<open>Updater.save\<close> writes to the datastore one instance after the other, so a raise
  leaves the earlier writes in place: the result is the exception if any, the instances
  and the datastore.\<close>

fun Updater_save :: "measure list \<Rightarrow> store \<Rightarrow> error option \<times> measure list \<times> store" where
  "Updater_save [] st = (None, [], st)"
| "Updater_save (m # ms) st =
     (case save st m of
        Inl e \<Rightarrow> (Some e, m # ms, st)
      | Inr (m1, st1) \<Rightarrow>
          (case Updater_save ms st1 of (r, ms1, st2) \<Rightarrow> (r, m1 # ms1, st2)))"

subsection \<open>Event ingestion\<close>

datatype QuestionScore = QuestionScore (quid: jval) (score: jval)

text \<open>Python indexing of a list or a string: a negative index counts from the end.\<close>

definition py_index :: "'a list \<Rightarrow> int \<Rightarrow> error + 'a" where
  "py_index xs i =
     (if 0 \<le> i \<and> i < int (length xs) then Inr (xs ! nat i)
      else if i < 0 \<and> - int (length xs) \<le> i then Inr (xs ! nat (int (length xs) + i))
      else Inl IndexError)"

text \<open>\<^verbatim>\<open>x[k]\<close> on decoded JSON values. The keys of a decoded dict are strings, so no other
  hashable key is found in it; a list or a dict as key is unhashable.\<close>

fun py_getitem :: "jval \<Rightarrow> jval \<Rightarrow> error + jval" where
  "py_getitem (JDict kvs) (JStr k) =
     (case map_of kvs k of None \<Rightarrow> Inl KeyError | Some v \<Rightarrow> Inr v)"
| "py_getitem (JDict kvs) (JList ks) = Inl TypeError"
| "py_getitem (JDict kvs) (JDict ks) = Inl TypeError"
| "py_getitem (JDict kvs) k = Inl KeyError"
| "py_getitem (JList xs) (JInt i) = py_index xs i"
| "py_getitem (JList xs) (JBool b) = py_index xs (if b then 1 else 0)"
| "py_getitem (JList xs) k = Inl TypeError"
| "py_getitem (JStr s) (JInt i) =
     (case py_index s i of Inl e \<Rightarrow> Inl e | Inr c \<Rightarrow> Inr (JStr [c]))"
| "py_getitem (JStr s) (JBool b) =
     (case py_index s (if b then 1 else 0) of Inl e \<Rightarrow> Inl e | Inr c \<Rightarrow> Inr (JStr [c]))"
| "py_getitem (JStr s) k = Inl TypeError"
| "py_getitem x k = Inl TypeError"

text \<open>The elements a \<^verbatim>\<open>for\<close> loop or \<^verbatim>\<open>zip\<close> draws from a value: the elements of a
  list, the characters of a string, the keys of a dict; nothing else is iterable.\<close>

fun py_iter :: "jval \<Rightarrow> error + jval list" where
  "py_iter (JList xs) = Inr xs"
| "py_iter (JStr s) = Inr (map (\<lambda>c. JStr [c]) s)"
| "py_iter (JDict kvs) = Inr (map (\<lambda>kv. JStr (fst kv)) kvs)"
| "py_iter x = Inl TypeError"

definition py_zip :: "jval \<Rightarrow> jval \<Rightarrow> error + (jval \<times> jval) list" where
  "py_zip a b =
     (case py_iter a of
        Inl e \<Rightarrow> Inl e
      | Inr xs \<Rightarrow> (case py_iter b of Inl e \<Rightarrow> Inl e | Inr ys \<Rightarrow> Inr (zip xs ys)))"

text \<open>\<^verbatim>\<open>[QuestionScore(q, s) for q, s in zip(a, b)]\<close>\<close>

definition zip_question_scores :: "jval \<Rightarrow> jval \<Rightarrow> error + QuestionScore list" where
  "zip_question_scores a b =
     (case py_zip a b of
        Inl e \<Rightarrow> Inl e
      | Inr ps \<Rightarrow> Inr (map (\<lambda>p. QuestionScore (fst p) (snd p)) ps))"

definition get_questions_scores_from_single_item :: "jval \<Rightarrow> error + QuestionScore list" where
  "get_questions_scores_from_single_item d =
     (case py_getitem d (JStr ''type'') of
        Inl e \<Rightarrow> Inl e
      | Inr t \<Rightarrow>
          if t = JStr ''QuestionGroup'' then
            (case py_getitem d (JStr ''quids'') of
               Inl e \<Rightarrow> Inl e
             | Inr qs \<Rightarrow>
                 (case py_getitem d (JStr ''individualScores'') of
                    Inl e \<Rightarrow> Inl e
                  | Inr ss \<Rightarrow> zip_question_scores qs ss))
          else
            (case py_getitem d (JStr ''quid'') of
               Inl e \<Rightarrow> Inl e
             | Inr q \<Rightarrow>
                 (case py_getitem d (JStr ''score'') of
                    Inl e \<Rightarrow> Inl e
                  | Inr s \<Rightarrow> Inr [QuestionScore q s])))"

text \<open>\<^verbatim>\<open>isinstance(x, basestring)\<close> and \<^verbatim>\<open>isinstance(x, list)\<close>\<close>

fun is_basestring :: "jval \<Rightarrow> bool" where
  "is_basestring (JStr s) = True"
| "is_basestring x = False"

fun is_list :: "jval \<Rightarrow> bool" where
  "is_list (JList xs) = True"
| "is_list x = False"

text \<open>The loop \<^verbatim>\<open>for instanceid in quids\<close> of the multi-item ingestor, over the instance
  ids still to visit, with \<^verbatim>\<open>question_scores\<close> as accumulator.\<close>

fun many_items_loop ::
  "jval \<Rightarrow> jval \<Rightarrow> jval list \<Rightarrow> QuestionScore list \<Rightarrow> error + QuestionScore list" where
  "many_items_loop quids scores [] question_scores = Inr question_scores"
| "many_items_loop quids scores (instanceid # rest) question_scores =
     (case py_getitem quids instanceid of
        Inl e \<Rightarrow> Inl e
      | Inr q \<Rightarrow>
          (case py_getitem scores instanceid of
             Inl e \<Rightarrow> Inl e
           | Inr s \<Rightarrow>
               if is_basestring q
               then many_items_loop quids scores rest (question_scores @ [QuestionScore q s])
               else
                 (case zip_question_scores q s of
                    Inl e \<Rightarrow> Inl e
                  | Inr qss \<Rightarrow> many_items_loop quids scores rest (question_scores @ qss))))"

definition get_questions_scores_from_many_items :: "jval \<Rightarrow> error + QuestionScore list" where
  "get_questions_scores_from_many_items d =
     (if is_list d then Inr []
      else
        (case py_getitem d (JStr ''quids'') of
           Inl e \<Rightarrow> Inl e
         | Inr quids \<Rightarrow>
             (case py_getitem d (JStr ''individualScores'') of
                Inl e \<Rightarrow> Inl e
              | Inr scores \<Rightarrow>
                  (case py_iter quids of
                     Inl e \<Rightarrow> Inl e
                   | Inr instanceids \<Rightarrow> many_items_loop quids scores instanceids []))))"

subsection \<open>The event listener\<close>

text \<open>What the listener reads of a question loaded by \<^verbatim>\<open>models.QuestionDAO.load\<close>: the
  entry of its dict under \<^verbatim>\<open>constants.SKILLS_KEY\<close>, \<open>None\<close> when the key is absent. A
  skill id is the string that \<^verbatim>\<open>'%s'\<close> formats it to. The question store is a parameter
  of the listener: a function from the question id to the question, \<open>None\<close> when
  \<^verbatim>\<open>load\<close> returns \<^verbatim>\<open>None\<close>.\<close>

record question =
  skills :: "string list option"

type_synonym question_dao = "jval \<Rightarrow> question option"

text \<open>\<^verbatim>\<open>scores_by_skill\<close>, a \<^verbatim>\<open>defaultdict(list)\<close>, as an association list;
  \<open>append_score\<close> is \<^verbatim>\<open>scores_by_skill[skill_id].append(score)\<close>. Python leaves the order
  in which \<^verbatim>\<open>iteritems()\<close> visits the skills open; the model visits them in the order of
  their first score.\<close>

fun append_score ::
  "(string \<times> jval list) list \<Rightarrow> string \<Rightarrow> jval \<Rightarrow> (string \<times> jval list) list" where
  "append_score [] skill_id s = [(skill_id, [s])]"
| "append_score ((k, l) # rest) skill_id s =
     (if k = skill_id then (k, l @ [s]) # rest else (k, l) # append_score rest skill_id s)"

fun group_by_skill ::
  "question_dao \<Rightarrow> QuestionScore list \<Rightarrow> (string \<times> jval list) list \<Rightarrow>
   error + (string \<times> jval list) list" where
  "group_by_skill QuestionDAO_load [] scores_by_skill = Inr scores_by_skill"
| "group_by_skill QuestionDAO_load (question_score # rest) scores_by_skill =
     (case QuestionDAO_load (quid question_score) of
        None \<Rightarrow> Inl AttributeError
      | Some q \<Rightarrow>
          group_by_skill QuestionDAO_load rest
            (foldl (\<lambda>acc skill_id. append_score acc skill_id (score question_score))
               scores_by_skill
               (case skills q of None \<Rightarrow> [] | Some l \<Rightarrow> l)))"

text \<open>\<^verbatim>\<open>for score in scores: updater.update(score)\<close>\<close>

fun Updater_update_scores :: "measure list \<Rightarrow> jval list \<Rightarrow> error + measure list" where
  "Updater_update_scores ms [] = Inr ms"
| "Updater_update_scores ms (s # ss) =
     (case Updater_update ms s of
        Inl e \<Rightarrow> Inl e
      | Inr ms1 \<Rightarrow> Updater_update_scores ms1 ss)"

text \<open>The loop over \<^verbatim>\<open>scores_by_skill.iteritems()\<close>: one Updater per skill, loaded, fed
  every score of the skill and saved. A raise leaves the datastore as the saves before it
  made it.\<close>

fun update_skills ::
  "registry \<Rightarrow> string \<Rightarrow> (string \<times> jval list) list \<Rightarrow> store \<Rightarrow> error option \<times> store" where
  "update_skills reg uid [] st = (None, st)"
| "update_skills reg uid ((skill_id, scores) # rest) st =
     (case get_updater reg st uid skill_id of
        Inl e \<Rightarrow> (Some e, st)
      | Inr updater \<Rightarrow>
          (case Updater_update_scores updater scores of
             Inl e \<Rightarrow> (Some e, st)
           | Inr updater1 \<Rightarrow>
               (case Updater_save updater1 st of
                  (Some e, ms, st1) \<Rightarrow> (Some e, st1)
                | (None, ms, st1) \<Rightarrow> update_skills reg uid rest st1)))"

text \<open>The \<^verbatim>\<open>if\<close>/\<^verbatim>\<open>elif\<close> chain of \<^verbatim>\<open>record_event_listener\<close>: the question-score pairs
  of a recognised source, or the exception that decoding or ingesting the payload raised;
  \<open>None\<close> in the \<^verbatim>\<open>else\<close> branch, where the listener returns. \<^verbatim>\<open>transforms.loads\<close>, the
  JSON decoder, is a parameter.\<close>

definition event_question_scores ::
  "(string \<Rightarrow> error + jval) \<Rightarrow> string \<Rightarrow> string \<Rightarrow> (error + QuestionScore list) option" where
  "event_question_scores loads source payload =
     (if source = ''tag-assessment'' then
        Some (case loads payload of
                Inl e \<Rightarrow> Inl e
              | Inr d \<Rightarrow> get_questions_scores_from_single_item d)
      else if source = ''attempt-lesson'' then
        Some (case loads payload of
                Inl e \<Rightarrow> Inl e
              | Inr d \<Rightarrow> get_questions_scores_from_many_items d)
      else if source = ''submit-assessment'' then
        Some (case loads payload of
                Inl e \<Rightarrow> Inl e
              | Inr d0 \<Rightarrow>
                  (case py_getitem d0 (JStr ''values'') of
                     Inl e \<Rightarrow> Inl e
                   | Inr d \<Rightarrow> get_questions_scores_from_many_items d))
      else None)"

text \<open>\<^verbatim>\<open>record_event_listener(source, user, data)\<close>. The question store, the registry and
  the datastore are parameters as well; \<open>uid\<close> is \<^verbatim>\<open>user.user_id()\<close>. The listener returns
  nothing, so its result is the exception it raised, if any, and the datastore it leaves
  behind.\<close>

definition record_event_listener ::
  "(string \<Rightarrow> error + jval) \<Rightarrow> question_dao \<Rightarrow> registry \<Rightarrow> store \<Rightarrow>
   string \<Rightarrow> string \<Rightarrow> string \<Rightarrow> error option \<times> store" where
  "record_event_listener loads QuestionDAO_load reg st source uid payload =
     (case event_question_scores loads source payload of
        None \<Rightarrow> (None, st)
      | Some (Inl e) \<Rightarrow> (Some e, st)
      | Some (Inr question_scores) \<Rightarrow>
          (case group_by_skill QuestionDAO_load question_scores [] of
             Inl e \<Rightarrow> (Some e, st)
           | Inr scores_by_skill \<Rightarrow> update_skills reg uid scores_by_skill st))"

subsection \<open>Derived notions used in the statements\<close>

text \<open>The document a loaded instance of class \<open>c\<close> holds after one call to \<^verbatim>\<open>update\<close>.\<close>

definition updated_dto ::
  "measure_class \<Rightarrow> CompetencyMeasureDto \<Rightarrow> event \<Rightarrow> CompetencyMeasureDto" where
  "updated_dto c d e =
     (case c of
        BaseCompetencyMeasure \<Rightarrow> append_event d e
      | SuccessRateCompetencyMeasure \<Rightarrow> update_summary (append_event d e) (normalized_score e))"

text \<open>The order of statements that the specification describes for
  \<^verbatim>\<open>SuccessRateCompetencyMeasure.update\<close>, to be compared with \<open>SuccessRate_update\<close>: the data
  summary is updated first (which reads \<^verbatim>\<open>self.dto.get_data\<close>, an attribute access that
  raises on \<^verbatim>\<open>None\<close>), the base class is called afterwards.\<close>

definition update_summary_first :: "measure \<Rightarrow> event \<Rightarrow> error + measure" where
  "update_summary_first m e =
     (case dto m of
        None \<Rightarrow> Inl AttributeError
      | Some d \<Rightarrow> Base_update (m\<lparr>dto := Some (update_summary d (normalized_score e))\<rparr>) e)"

text \<open>One use of a success-rate measure as the specification describes it: a new
  instance is loaded for the user and the skill, updated with each of the scores \<open>qs\<close> in
  turn, and then asked for its score (\<open>load_update_score\<close>) or saved
  (\<open>load_update_save\<close>, which returns the datastore).\<close>

definition load_update_score :: "store \<Rightarrow> string \<Rightarrow> string \<Rightarrow> rat list \<Rightarrow> error + rat" where
  "load_update_score st uid skill_id qs =
     (case load st (init SuccessRateCompetencyMeasure uid) skill_id of
        Inl e \<Rightarrow> Inl e
      | Inr m \<Rightarrow>
          (case update_seq m (map (\<lambda>q. score_event (JFloat q)) qs) of
             Inl e \<Rightarrow> Inl e
           | Inr m1 \<Rightarrow> get_skill_score m1))"

definition load_update_save :: "store \<Rightarrow> string \<Rightarrow> string \<Rightarrow> rat list \<Rightarrow> error + store" where
  "load_update_save st uid skill_id qs =
     (case load st (init SuccessRateCompetencyMeasure uid) skill_id of
        Inl e \<Rightarrow> Inl e
      | Inr m \<Rightarrow>
          (case update_seq m (map (\<lambda>q. score_event (JFloat q)) qs) of
             Inl e \<Rightarrow> Inl e
           | Inr m1 \<Rightarrow> (case save st m1 of Inl e \<Rightarrow> Inl e | Inr (m2, st1) \<Rightarrow> Inr st1)))"

text \<open>The score that the specification states for the scores \<open>qs\<close>: the number of scores
  at or above 0.5 divided by the number of scores, and 0.0 for no score.\<close>

definition claimed_score :: "rat list \<Rightarrow> rat" where
  "claimed_score qs =
     (if qs = [] then 0 else of_nat (length (filter (\<lambda>q. 1 / 2 \<le> q) qs)) / of_nat (length qs))"

text \<open>The datastore in which the success-rate measure of user \<^verbatim>\<open>u1\<close> and skill \<^verbatim>\<open>s1\<close> has
  seen one score, 0.2.\<close>

definition store_after_one_miss :: store where
  "store_after_one_miss =
     Map.empty(''u1:s1:SuccessRateCompetencyMeasure'' \<mapsto>
       \<lparr>data = Some (Map.empty(''count'' \<mapsto> 1)),
        events = Some [score_event (JFloat (1 / 5))]\<rparr>)"

section \<open>Properties\<close>

subsection \<open>The DTO\<close>

lemma get_data_append_event: "get_data (append_event d e) k = get_data d k"
  by (simp add: get_data_def append_event_def)

lemma get_data_set_data:
  "get_data (set_data d k v) k' = (if k' = k then Some v else get_data d k')"
  by (simp add: get_data_def set_data_def split: option.splits)

lemma events_set_data: "Dto_get_events_list (set_data d k v) = Dto_get_events_list d"
  by (simp add: Dto_get_events_list_def set_data_def)

lemma events_append_event:
  "Dto_get_events_list (append_event d e) = Dto_get_events_list d @ [e]"
  by (simp add: Dto_get_events_list_def append_event_def)

lemma dto_id_set_data: "dto_id (set_data d k v) = dto_id d"
  by (simp add: set_data_def)

lemma dto_id_append_event: "dto_id (append_event d e) = dto_id d"
  by (simp add: append_event_def)

lemma dto_surjective: "\<lparr>dto_id = dto_id d, dict = dict d\<rparr> = (d :: CompetencyMeasureDto)"
  by (cases d) simp

subsection \<open>One update and a sequence of updates\<close>

lemma count_update_summary:
  "or_0 (get_data (update_summary d s) COUNT_KEY) = or_0 (get_data d COUNT_KEY) + 1"
  by (simp add: update_summary_def Let_def get_data_set_data or_0_def COUNT_KEY_def
      CORRECT_KEY_def)

lemma correct_update_summary:
  "or_0 (get_data (update_summary d s) CORRECT_KEY) =
     or_0 (get_data d CORRECT_KEY) + (if py_ge s CORRECT_INCORRECT_CUTOFF then 1 else 0)"
  by (simp add: update_summary_def Let_def get_data_set_data or_0_def COUNT_KEY_def
      CORRECT_KEY_def)

lemma events_update_summary:
  "Dto_get_events_list (update_summary d s) = Dto_get_events_list d"
  by (simp add: update_summary_def Let_def events_set_data)

lemma dto_id_update_summary: "dto_id (update_summary d s) = dto_id d"
  by (simp add: update_summary_def Let_def dto_id_set_data)

lemma update_loaded:
  "dto m = Some d \<Longrightarrow> update m e = Inr (m\<lparr>dto := Some (updated_dto (cls m) d e)\<rparr>)"
  by (simp add: update_def Base_update_def SuccessRate_update_def updated_dto_def
      split: measure_class.splits)

lemma update_unloaded: "dto m = None \<Longrightarrow> update m e = Inl AssertionError"
  by (simp add: update_def Base_update_def SuccessRate_update_def split: measure_class.splits)

lemma events_updated_dto:
  "Dto_get_events_list (updated_dto c d e) = Dto_get_events_list d @ [e]"
  by (simp add: updated_dto_def events_update_summary events_append_event
      split: measure_class.splits)

lemma dto_id_updated_dto: "dto_id (updated_dto c d e) = dto_id d"
  by (simp add: updated_dto_def dto_id_update_summary dto_id_append_event
      split: measure_class.splits)

lemma count_updated_dto:
  "or_0 (get_data (updated_dto SuccessRateCompetencyMeasure d e) COUNT_KEY) =
     or_0 (get_data d COUNT_KEY) + 1"
  by (simp add: updated_dto_def count_update_summary get_data_append_event)

lemma correct_updated_dto:
  "or_0 (get_data (updated_dto SuccessRateCompetencyMeasure d e) CORRECT_KEY) =
     or_0 (get_data d CORRECT_KEY) +
       (if py_ge (normalized_score e) CORRECT_INCORRECT_CUTOFF then 1 else 0)"
  by (simp add: updated_dto_def correct_update_summary get_data_append_event)

text \<open>A loaded instance takes every update: the events are appended in order and, for the
  success-rate measure, the two counters grow by the number of updates and by the number
  of scores at or above the cutoff. Neither counter has to start at zero.\<close>

lemma update_seq_loaded:
  "dto m = Some d \<Longrightarrow>
   \<exists>d'. update_seq m es = Inr (m\<lparr>dto := Some d'\<rparr>) \<and>
        Dto_get_events_list d' = Dto_get_events_list d @ es \<and>
        dto_id d' = dto_id d \<and>
        (cls m = SuccessRateCompetencyMeasure \<longrightarrow>
           or_0 (get_data d' COUNT_KEY) = or_0 (get_data d COUNT_KEY) + int (length es) \<and>
           or_0 (get_data d' CORRECT_KEY) =
             or_0 (get_data d CORRECT_KEY) +
               int (length (filter (\<lambda>e. py_ge (normalized_score e) CORRECT_INCORRECT_CUTOFF) es)))"
proof (induction es arbitrary: m d)
  case Nil
  then show ?case by (cases m) auto
next
  case (Cons e es)
  let ?d1 = "updated_dto (cls m) d e"
  let ?m1 = "m\<lparr>dto := Some ?d1\<rparr>"
  have u: "update m e = Inr ?m1"
    using Cons.prems by (rule update_loaded)
  have "dto ?m1 = Some ?d1" by simp
  from Cons.IH [OF this] obtain d' where
    s: "update_seq ?m1 es = Inr (?m1\<lparr>dto := Some d'\<rparr>)" and
    ev: "Dto_get_events_list d' = Dto_get_events_list ?d1 @ es" and
    id: "dto_id d' = dto_id ?d1" and
    cnt: "cls ?m1 = SuccessRateCompetencyMeasure \<longrightarrow>
           or_0 (get_data d' COUNT_KEY) = or_0 (get_data ?d1 COUNT_KEY) + int (length es) \<and>
           or_0 (get_data d' CORRECT_KEY) =
             or_0 (get_data ?d1 CORRECT_KEY) +
               int (length (filter (\<lambda>e. py_ge (normalized_score e) CORRECT_INCORRECT_CUTOFF) es))"
    by blast
  have 1: "update_seq m (e # es) = Inr (m\<lparr>dto := Some d'\<rparr>)"
    using u s by simp
  have 2: "Dto_get_events_list d' = Dto_get_events_list d @ e # es"
    using ev by (simp add: events_updated_dto)
  have 3: "dto_id d' = dto_id d"
    using id by (simp add: dto_id_updated_dto)
  have 4: "cls m = SuccessRateCompetencyMeasure \<longrightarrow>
           or_0 (get_data d' COUNT_KEY) = or_0 (get_data d COUNT_KEY) + int (length (e # es)) \<and>
           or_0 (get_data d' CORRECT_KEY) =
             or_0 (get_data d CORRECT_KEY) +
               int (length (filter (\<lambda>e. py_ge (normalized_score e) CORRECT_INCORRECT_CUTOFF)
                      (e # es)))"
    using cnt by (auto simp add: count_updated_dto correct_updated_dto)
  from 1 2 3 4 show ?case by blast
qed

subsection \<open>Loading and saving\<close>

lemma load_result:
  "load st (init c uid) skill_id = Inr m \<Longrightarrow>
   \<exists>k d. create_key_name uid skill_id (class_name_of c) = Inr k \<and>
         m = (init c uid)\<lparr>dto := Some d\<rparr> \<and> dto_id d = k \<and>
         dict d = (case st k of None \<Rightarrow> empty_dict | Some doc \<Rightarrow> doc)"
  by (auto simp add: load_def init_def Dao_load_def split: sum.splits option.splits)

lemma load_saved:
  assumes "create_key_name uid skill_id (class_name_of c) = Inr (dto_id d)"
  shows "load (Dao_save st d) (init c uid) skill_id = Inr ((init c uid)\<lparr>dto := Some d\<rparr>)"
  using assms by (simp add: load_def init_def Dao_load_def Dao_save_def dto_surjective)

lemma get_skill_score_loaded:
  "cls m = SuccessRateCompetencyMeasure \<Longrightarrow> dto m = Some d \<Longrightarrow>
   get_skill_score m =
     Inr (if or_0 (get_data d COUNT_KEY) \<noteq> 0
          then of_int (or_0 (get_data d CORRECT_KEY)) / of_int (or_0 (get_data d COUNT_KEY))
          else 0)"
  by (simp add: get_skill_score_def Let_def)

lemma filter_score_events:
  "length (filter (\<lambda>e. py_ge (normalized_score e) CORRECT_INCORRECT_CUTOFF)
             (map (\<lambda>q. score_event (JFloat q)) qs)) =
   length (filter (\<lambda>q. 1 / 2 \<le> q) qs)"
  by (induction qs) (simp_all add: score_event_def CORRECT_INCORRECT_CUTOFF_def)

text \<open>\<open>store_after_one_miss\<close> is what the code itself leaves behind: one cycle of load,
  update with the score 0.2 and save, on the empty datastore.\<close>

lemma first_cycle_store:
  "load_update_save Map.empty ''u1'' ''s1'' [1 / 5] = Inr store_after_one_miss"
  by (simp add: load_update_save_def store_after_one_miss_def load_def init_def
      create_key_name_def Dao_load_def Dao_save_def save_def update_def SuccessRate_update_def
      Base_update_def update_summary_def append_event_def set_data_def get_data_def or_0_def
      empty_dict_def COUNT_KEY_def CORRECT_KEY_def CORRECT_INCORRECT_CUTOFF_def
      score_event_def Let_def)

subsection \<open>The listener on a checked answer\<close>

text \<open>One question \<^verbatim>\<open>q1\<close> answered with score 0.8 and tagged with the skill \<^verbatim>\<open>s1\<close>, on an
  empty datastore with the success-rate measure registered: the listener returns
  normally, the document of the measure logs the event, and a measure loaded afterwards
  reports the score 1.0.\<close>

lemma listener_tag_assessment_example:
  "\<exists>st doc m. record_event_listener
     (\<lambda>p. Inr (JDict [(''type'', JStr ''McQuestion''), (''quid'', JStr ''q1''),
                      (''score'', JFloat (4 / 5))]))
     (\<lambda>q. if q = JStr ''q1'' then Some \<lparr>skills = Some [''s1'']\<rparr> else None)
     [SuccessRateCompetencyMeasure] Map.empty ''tag-assessment'' ''u1'' ''{}'' = (None, st) \<and>
     st ''u1:s1:SuccessRateCompetencyMeasure'' = Some doc \<and>
     events doc = Some [score_event (JFloat (4 / 5))] \<and>
     load st (init SuccessRateCompetencyMeasure ''u1'') ''s1'' = Inr m \<and>
     get_skill_score m = Inr 1"
  by (simp add: record_event_listener_def event_question_scores_def
      get_questions_scores_from_single_item_def load_def init_def create_key_name_def
      Dao_load_def Dao_save_def save_def update_def SuccessRate_update_def Base_update_def
      update_summary_def append_event_def set_data_def get_data_def or_0_def empty_dict_def
      COUNT_KEY_def CORRECT_KEY_def CORRECT_INCORRECT_CUTOFF_def get_skill_score_def
      score_event_def Let_def)

section \<open>The claims\<close>

subsection \<open>The success-rate score\<close>

text \<open>
  Claim C1, as stated, at a concrete input. The datastore already holds the document of
  the measure, with one observation below the cutoff. A new instance is loaded and
  updated once, with the score 1.0: \<^verbatim>\<open>get_skill_score()\<close> returns 1/2, the rate over both
  observations, and not 1/1, the rate over the one score fed after this \<^verbatim>\<open>load\<close>. So the
  score after \<^verbatim>\<open>load\<close> and \<open>n\<close> updates is not in general the rate over those \<open>n\<close> scores.
\<close>

theorem success_rate_prior_observations_counterexample:
  "load_update_score store_after_one_miss ''u1'' ''s1'' [1] = Inr (1 / 2) \<and>
   claimed_score [1] = 1 \<and>
   load_update_score store_after_one_miss ''u1'' ''s1'' [1] \<noteq> Inr (claimed_score [1])"
  by (simp add: load_update_score_def store_after_one_miss_def claimed_score_def load_def
      init_def create_key_name_def Dao_load_def update_def SuccessRate_update_def
      Base_update_def update_summary_def append_event_def set_data_def get_data_def or_0_def
      COUNT_KEY_def CORRECT_KEY_def CORRECT_INCORRECT_CUTOFF_def get_skill_score_def
      score_event_def Let_def)

text \<open>
  Claim C1, amended. A success-rate measure is loaded for a user and a skill and holds no
  prior observations (its document was absent from the datastore, or its counters are
  absent or zero). Then \<^verbatim>\<open>get_skill_score()\<close> returns 0.0; and after \<open>n\<close> calls to
  \<^verbatim>\<open>update\<close> with the scores \<open>qs\<close> (any floats, in particular those in [0,1]) every call has
  succeeded and \<^verbatim>\<open>get_skill_score()\<close> returns the number of scores at or above 0.5 divided
  by \<open>n\<close> when \<open>n > 0\<close>, and 0.0 when \<open>n = 0\<close>. Saving the instance and loading a new one
  for the same user and skill gives the same score. The quotient is the exact rational
  number.
\<close>

theorem success_rate_skill_score:
  assumes ld: "load st (init SuccessRateCompetencyMeasure uid) skill_id = Inr m"
    and fresh: "\<forall>d. dto m = Some d \<longrightarrow>
                  or_0 (get_data d COUNT_KEY) = 0 \<and> or_0 (get_data d CORRECT_KEY) = 0"
  shows "get_skill_score m = Inr 0 \<and>
         (\<exists>m1 m2 st1 m3.
            update_seq m (map (\<lambda>q. score_event (JFloat q)) qs) = Inr m1 \<and>
            get_skill_score m1 =
              Inr (if qs = [] then 0
                   else of_nat (length (filter (\<lambda>q. 1 / 2 \<le> q) qs)) / of_nat (length qs)) \<and>
            save st m1 = Inr (m2, st1) \<and>
            load st1 (init SuccessRateCompetencyMeasure uid) skill_id = Inr m3 \<and>
            get_skill_score m3 = get_skill_score m1)"
proof -
  let ?c = SuccessRateCompetencyMeasure
  let ?es = "map (\<lambda>q. score_event (JFloat q)) qs"
  from load_result [OF ld] obtain k d where
    k: "create_key_name uid skill_id (class_name_of ?c) = Inr k" and
    m: "m = (init ?c uid)\<lparr>dto := Some d\<rparr>" and
    id: "dto_id d = k"
    by blast
  have cm: "cls m = ?c" and dm: "dto m = Some d"
    using m by (simp_all add: init_def)
  from fresh dm have z: "or_0 (get_data d COUNT_KEY) = 0" "or_0 (get_data d CORRECT_KEY) = 0"
    by simp_all
  have s0: "get_skill_score m = Inr 0"
    using get_skill_score_loaded [OF cm dm] z by simp
  from update_seq_loaded [OF dm, of ?es] cm obtain d' where
    u: "update_seq m ?es = Inr (m\<lparr>dto := Some d'\<rparr>)" and
    id': "dto_id d' = dto_id d" and
    cnt: "or_0 (get_data d' COUNT_KEY) = or_0 (get_data d COUNT_KEY) + int (length ?es)" and
    cor: "or_0 (get_data d' CORRECT_KEY) =
            or_0 (get_data d CORRECT_KEY) +
              int (length (filter (\<lambda>e. py_ge (normalized_score e) CORRECT_INCORRECT_CUTOFF) ?es))"
    by blast
  let ?m1 = "m\<lparr>dto := Some d'\<rparr>"
  have cnt': "or_0 (get_data d' COUNT_KEY) = int (length qs)"
    using cnt z by simp
  define g where "g = length (filter (\<lambda>q. 1 / 2 \<le> q) qs)"
  have cor': "or_0 (get_data d' CORRECT_KEY) = int g"
    by (simp only: cor z filter_score_events add_0 g_def)
  have "cls ?m1 = ?c" and "dto ?m1 = Some d'"
    using cm by simp_all
  from get_skill_score_loaded [OF this]
  have "get_skill_score ?m1 = Inr (if qs = [] then 0 else of_nat g / of_nat (length qs))"
    by (simp add: cnt' cor')
  then have s1: "get_skill_score ?m1 =
              Inr (if qs = [] then 0
                   else of_nat (length (filter (\<lambda>q. 1 / 2 \<le> q) qs)) / of_nat (length qs))"
    unfolding g_def .
  have sv: "save st ?m1 = Inr (?m1\<lparr>dto := None\<rparr>, Dao_save st d')"
    by (simp add: save_def)
  have "create_key_name uid skill_id (class_name_of ?c) = Inr (dto_id d')"
    using k id id' by simp
  from load_saved [OF this]
  have "load (Dao_save st d') (init ?c uid) skill_id = Inr ((init ?c uid)\<lparr>dto := Some d'\<rparr>)" .
  also have "(init ?c uid)\<lparr>dto := Some d'\<rparr> = ?m1"
    using m by simp
  finally have rl: "load (Dao_save st d') (init ?c uid) skill_id = Inr ?m1" .
  from s0 u s1 sv rl show ?thesis by blast
qed

text \<open>The theorem at an empty datastore, for the scores 0.8, 0.2 and 0.5: two of the three
  count as correct.\<close>

theorem success_rate_skill_score_witness:
  "\<exists>m. load Map.empty (init SuccessRateCompetencyMeasure ''u1'') ''s1'' = Inr m \<and>
       get_skill_score m = Inr 0 \<and>
       (\<exists>m1. update_seq m (map (\<lambda>q. score_event (JFloat q)) [4 / 5, 1 / 5, 1 / 2]) = Inr m1 \<and>
             get_skill_score m1 = Inr (2 / 3))"
proof -
  let ?m = "\<lparr>cls = SuccessRateCompetencyMeasure, user_id = ''u1'',
             dto = Some \<lparr>dto_id = ''u1:s1:SuccessRateCompetencyMeasure'', dict = empty_dict\<rparr>\<rparr>"
  have ld: "load Map.empty (init SuccessRateCompetencyMeasure ''u1'') ''s1'' = Inr ?m"
    by (simp add: load_def init_def create_key_name_def Dao_load_def)
  have fresh: "\<forall>d. dto ?m = Some d \<longrightarrow>
                 or_0 (get_data d COUNT_KEY) = 0 \<and> or_0 (get_data d CORRECT_KEY) = 0"
    by (simp add: get_data_def empty_dict_def or_0_def)
  from success_rate_skill_score [OF ld fresh, of "[4 / 5, 1 / 5, 1 / 2]"]
  obtain m1 where
    "update_seq ?m (map (\<lambda>q. score_event (JFloat q)) [4 / 5, 1 / 5, 1 / 2]) = Inr m1" and
    "get_skill_score ?m = Inr 0" and
    "get_skill_score m1 = Inr (2 / 3)"
    by auto
  with ld show ?thesis by blast
qed

subsection \<open>The order of the two steps of the success-rate update\<close>

text \<open>
  Claim C2, as stated, at a concrete input. On an instance that was never loaded the order
  of the two steps shows: the source calls the base class first, whose assertion fails,
  while updating the data summary first would fail with \<^verbatim>\<open>AttributeError\<close> on
  \<^verbatim>\<open>self.dto.get_data\<close>. So \<^verbatim>\<open>SuccessRateCompetencyMeasure.update\<close> is not the data summary
  followed by the base update.
\<close>

theorem SuccessRate_update_order_counterexample:
  "SuccessRate_update (init SuccessRateCompetencyMeasure ''u1'') (score_event (JFloat 1))
     = Inl AssertionError \<and>
   update_summary_first (init SuccessRateCompetencyMeasure ''u1'') (score_event (JFloat 1))
     = Inl AttributeError \<and>
   SuccessRate_update (init SuccessRateCompetencyMeasure ''u1'') (score_event (JFloat 1)) \<noteq>
   update_summary_first (init SuccessRateCompetencyMeasure ''u1'') (score_event (JFloat 1))"
  by (simp add: SuccessRate_update_def update_summary_first_def Base_update_def init_def)

text \<open>
  Claim C2, amended. \<^verbatim>\<open>SuccessRateCompetencyMeasure.update\<close> first chains to the base update,
  which asserts that a document is loaded and appends the raw event record, and then
  updates its data summary on the document that already holds the event: \<^verbatim>\<open>count\<close> is
  incremented unconditionally and \<^verbatim>\<open>correct\<close> is incremented iff the score is at or above
  the cutoff 0.5.
\<close>

theorem SuccessRate_update_base_first:
  "(dto m = None \<longrightarrow> SuccessRate_update m e = Inl AssertionError) \<and>
   (\<forall>d. dto m = Some d \<longrightarrow>
      (\<exists>d'. SuccessRate_update m e = Inr (m\<lparr>dto := Some d'\<rparr>) \<and>
            d' = update_summary (append_event d e) (normalized_score e) \<and>
            Dto_get_events_list d' = Dto_get_events_list d @ [e] \<and>
            or_0 (get_data d' COUNT_KEY) = or_0 (get_data d COUNT_KEY) + 1 \<and>
            or_0 (get_data d' CORRECT_KEY) =
              or_0 (get_data d CORRECT_KEY) +
                (if py_ge (normalized_score e) (1 / 2) then 1 else 0)))"
proof (intro conjI allI impI)
  assume "dto m = None"
  then show "SuccessRate_update m e = Inl AssertionError"
    by (simp add: SuccessRate_update_def Base_update_def)
next
  fix d assume d: "dto m = Some d"
  let ?d' = "update_summary (append_event d e) (normalized_score e)"
  have 1: "SuccessRate_update m e = Inr (m\<lparr>dto := Some ?d'\<rparr>)"
    using d by (simp add: SuccessRate_update_def Base_update_def)
  have 2: "Dto_get_events_list ?d' = Dto_get_events_list d @ [e]"
    by (simp add: events_update_summary events_append_event)
  have 3: "or_0 (get_data ?d' COUNT_KEY) = or_0 (get_data d COUNT_KEY) + 1"
    by (simp add: count_update_summary get_data_append_event)
  have 4: "or_0 (get_data ?d' CORRECT_KEY) =
             or_0 (get_data d CORRECT_KEY) + (if py_ge (normalized_score e) (1 / 2) then 1 else 0)"
    by (simp add: correct_update_summary get_data_append_event CORRECT_INCORRECT_CUTOFF_def)
  from 1 2 3 4
  show "\<exists>d'. SuccessRate_update m e = Inr (m\<lparr>dto := Some d'\<rparr>) \<and>
            d' = update_summary (append_event d e) (normalized_score e) \<and>
            Dto_get_events_list d' = Dto_get_events_list d @ [e] \<and>
            or_0 (get_data d' COUNT_KEY) = or_0 (get_data d COUNT_KEY) + 1 \<and>
            or_0 (get_data d' CORRECT_KEY) =
              or_0 (get_data d CORRECT_KEY) +
                (if py_ge (normalized_score e) (1 / 2) then 1 else 0)"
    by blast
qed

text \<open>The amended statement on an instance that was never loaded, and on a loaded one
  whose document is empty, for the score 1.0 and for the score 0.25.\<close>

theorem SuccessRate_update_base_first_witness:
  "SuccessRate_update (init SuccessRateCompetencyMeasure ''u1'') (score_event (JFloat 1))
     = Inl AssertionError \<and>
   (\<exists>m1 d1. SuccessRate_update
              \<lparr>cls = SuccessRateCompetencyMeasure, user_id = ''u1'',
               dto = Some \<lparr>dto_id = ''u1:s1:SuccessRateCompetencyMeasure'', dict = empty_dict\<rparr>\<rparr>
              (score_event (JFloat 1)) = Inr m1 \<and>
            dto m1 = Some d1 \<and>
            Dto_get_events_list d1 = [score_event (JFloat 1)] \<and>
            or_0 (get_data d1 COUNT_KEY) = 1 \<and> or_0 (get_data d1 CORRECT_KEY) = 1) \<and>
   (\<exists>m1 d1. SuccessRate_update
              \<lparr>cls = SuccessRateCompetencyMeasure, user_id = ''u1'',
               dto = Some \<lparr>dto_id = ''u1:s1:SuccessRateCompetencyMeasure'', dict = empty_dict\<rparr>\<rparr>
              (score_event (JFloat (1 / 4))) = Inr m1 \<and>
            dto m1 = Some d1 \<and>
            Dto_get_events_list d1 = [score_event (JFloat (1 / 4))] \<and>
            or_0 (get_data d1 COUNT_KEY) = 1 \<and> or_0 (get_data d1 CORRECT_KEY) = 0)"
proof -
  let ?d = "\<lparr>dto_id = ''u1:s1:SuccessRateCompetencyMeasure'', dict = empty_dict\<rparr>"
  let ?m = "\<lparr>cls = SuccessRateCompetencyMeasure, user_id = ''u1'', dto = Some ?d\<rparr>"
  have z: "Dto_get_events_list ?d = []" "or_0 (get_data ?d COUNT_KEY) = 0"
    "or_0 (get_data ?d CORRECT_KEY) = 0"
    by (simp_all add: Dto_get_events_list_def get_data_def empty_dict_def or_0_def)
  have n: "dto (init SuccessRateCompetencyMeasure ''u1'') = None"
    by (simp add: init_def)
  have 1: "SuccessRate_update (init SuccessRateCompetencyMeasure ''u1'') (score_event (JFloat 1))
             = Inl AssertionError"
    using SuccessRate_update_base_first
      [of "init SuccessRateCompetencyMeasure ''u1''" "score_event (JFloat 1)"] n
    by simp
  have 2: "\<exists>m1 d1. SuccessRate_update ?m (score_event (JFloat 1)) = Inr m1 \<and>
            dto m1 = Some d1 \<and>
            Dto_get_events_list d1 = [score_event (JFloat 1)] \<and>
            or_0 (get_data d1 COUNT_KEY) = 1 \<and> or_0 (get_data d1 CORRECT_KEY) = 1"
    using SuccessRate_update_base_first [of ?m "score_event (JFloat 1)"] z
    by (simp add: score_event_def)
  have 3: "\<exists>m1 d1. SuccessRate_update ?m (score_event (JFloat (1 / 4))) = Inr m1 \<and>
            dto m1 = Some d1 \<and>
            Dto_get_events_list d1 = [score_event (JFloat (1 / 4))] \<and>
            or_0 (get_data d1 COUNT_KEY) = 1 \<and> or_0 (get_data d1 CORRECT_KEY) = 0"
    using SuccessRate_update_base_first [of ?m "score_event (JFloat (1 / 4))"] z
    by (simp add: score_event_def)
  from 1 2 3 show ?thesis by blast
qed

subsection \<open>The event log\<close>

text \<open>
  Claim C3. On every loaded instance, of either class, \<^verbatim>\<open>get_events_list()\<close> returns the
  stored sequence of events; each call to \<^verbatim>\<open>update\<close> succeeds and appends exactly its own
  event record at the end, leaving the records before it as they were; so after the
  updates \<open>es\<close> the sequence is the one before followed by \<open>es\<close> in arrival order, which
  is both what the document stores and what \<^verbatim>\<open>get_events_list()\<close> returns.
\<close>

theorem events_append_only:
  assumes "dto m = Some d"
  shows "get_events_list m = Inr (Dto_get_events_list d) \<and>
         (\<exists>m1. update m e = Inr m1 \<and> get_events_list m1 = Inr (Dto_get_events_list d @ [e])) \<and>
         (\<exists>m' d'. update_seq m es = Inr m' \<and> dto m' = Some d' \<and>
                  get_events_list m' = Inr (Dto_get_events_list d @ es) \<and>
                  (es \<noteq> [] \<longrightarrow> events (dict d') = Some (Dto_get_events_list d @ es)))"
proof -
  have 1: "get_events_list m = Inr (Dto_get_events_list d)"
    using assms by (simp add: get_events_list_def)
  have "update m e = Inr (m\<lparr>dto := Some (updated_dto (cls m) d e)\<rparr>)"
    using assms by (rule update_loaded)
  moreover have "get_events_list (m\<lparr>dto := Some (updated_dto (cls m) d e)\<rparr>) =
                   Inr (Dto_get_events_list d @ [e])"
    by (simp add: get_events_list_def events_updated_dto)
  ultimately have 2: "\<exists>m1. update m e = Inr m1 \<and>
                        get_events_list m1 = Inr (Dto_get_events_list d @ [e])"
    by blast
  from update_seq_loaded [OF assms, of es] obtain d' where
    u: "update_seq m es = Inr (m\<lparr>dto := Some d'\<rparr>)" and
    ev: "Dto_get_events_list d' = Dto_get_events_list d @ es"
    by blast
  have g: "get_events_list (m\<lparr>dto := Some d'\<rparr>) = Inr (Dto_get_events_list d @ es)"
    using ev by (simp add: get_events_list_def)
  have st: "es \<noteq> [] \<longrightarrow> events (dict d') = Some (Dto_get_events_list d @ es)"
    using ev by (auto simp add: Dto_get_events_list_def split: option.splits)
  have "dto (m\<lparr>dto := Some d'\<rparr>) = Some d'" by simp
  with u g st have 3: "\<exists>m' d'. update_seq m es = Inr m' \<and> dto m' = Some d' \<and>
                  get_events_list m' = Inr (Dto_get_events_list d @ es) \<and>
                  (es \<noteq> [] \<longrightarrow> events (dict d') = Some (Dto_get_events_list d @ es))"
    by blast
  from 1 2 3 show ?thesis by blast
qed

text \<open>The theorem on a base-class instance whose document already logs one event: two
  updates with the same score are both kept, after the old record.\<close>

theorem events_append_only_witness:
  "\<exists>m' d'. update_seq
             \<lparr>cls = BaseCompetencyMeasure, user_id = ''u1'',
              dto = Some \<lparr>dto_id = ''u1:s1:BaseCompetencyMeasure'',
                         dict = \<lparr>data = None, events = Some [score_event (JInt 0)]\<rparr>\<rparr>\<rparr>
             [score_event (JFloat 1), score_event (JFloat 1)] = Inr m' \<and>
           dto m' = Some d' \<and>
           get_events_list m' =
             Inr [score_event (JInt 0), score_event (JFloat 1), score_event (JFloat 1)] \<and>
           events (dict d') =
             Some [score_event (JInt 0), score_event (JFloat 1), score_event (JFloat 1)]"
proof -
  let ?d = "\<lparr>dto_id = ''u1:s1:BaseCompetencyMeasure'',
             dict = \<lparr>data = None, events = Some [score_event (JInt 0)]\<rparr>\<rparr>"
  let ?m = "\<lparr>cls = BaseCompetencyMeasure, user_id = ''u1'', dto = Some ?d\<rparr>"
  have l: "dto ?m = Some ?d" by simp
  have z: "Dto_get_events_list ?d = [score_event (JInt 0)]"
    by (simp add: Dto_get_events_list_def)
  from events_append_only [OF l, of "score_event (JFloat 1)"
      "[score_event (JFloat 1), score_event (JFloat 1)]"]
  show ?thesis
    unfolding z by simp
qed

subsection \<open>Use without a loaded document\<close>

text \<open>
  Claim C9. A new instance holds no document, and \<^verbatim>\<open>save\<close> leaves the instance without one.
  On an instance without a document \<^verbatim>\<open>save()\<close>, \<^verbatim>\<open>update()\<close> (of either class) and
  \<^verbatim>\<open>get_events_list()\<close> fail with an assertion failure and change nothing. A successful
  \<^verbatim>\<open>load\<close> leaves a document in the instance, \<^verbatim>\<open>update\<close> keeps it, and on an instance with
  a document none of the three calls fails.
\<close>

theorem unloaded_measure_asserts:
  "dto (init c uid) = None \<and>
   (dto m = None \<longrightarrow>
      save st m = Inl AssertionError \<and> update m e = Inl AssertionError \<and>
      get_events_list m = Inl AssertionError) \<and>
   (\<forall>m1 st1. save st m = Inr (m1, st1) \<longrightarrow> dto m1 = None) \<and>
   (\<forall>m0. load st (init c uid) skill_id = Inr m0 \<longrightarrow> dto m0 \<noteq> None) \<and>
   (dto m \<noteq> None \<longrightarrow>
      (\<exists>m1 st1. save st m = Inr (m1, st1)) \<and>
      (\<exists>m1. update m e = Inr m1 \<and> dto m1 \<noteq> None) \<and>
      (\<exists>es. get_events_list m = Inr es))"
proof (intro conjI allI impI)
  show "dto (init c uid) = None" by (simp add: init_def)
next
  assume n: "dto m = None"
  show "save st m = Inl AssertionError" using n by (simp add: save_def)
  show "update m e = Inl AssertionError" using n by (rule update_unloaded)
  show "get_events_list m = Inl AssertionError" using n by (simp add: get_events_list_def)
next
  fix m1 st1 assume "save st m = Inr (m1, st1)"
  then show "dto m1 = None" by (auto simp add: save_def split: option.splits)
next
  fix m0 assume "load st (init c uid) skill_id = Inr m0"
  from load_result [OF this] show "dto m0 \<noteq> None" by auto
next
  assume l: "dto m \<noteq> None"
  then obtain d where d: "dto m = Some d" by auto
  show "\<exists>m1 st1. save st m = Inr (m1, st1)" using d by (simp add: save_def)
  show "\<exists>m1. update m e = Inr m1 \<and> dto m1 \<noteq> None" using update_loaded [OF d] by simp
  show "\<exists>es. get_events_list m = Inr es" using d by (simp add: get_events_list_def)
qed

text \<open>The theorem on a success-rate instance before \<^verbatim>\<open>load\<close>, after \<^verbatim>\<open>load\<close>, and after the
  \<^verbatim>\<open>save\<close> that follows.\<close>

theorem unloaded_measure_asserts_witness:
  "save Map.empty (init SuccessRateCompetencyMeasure ''u1'') = Inl AssertionError \<and>
   update (init SuccessRateCompetencyMeasure ''u1'') (score_event (JFloat 1))
     = Inl AssertionError \<and>
   get_events_list (init SuccessRateCompetencyMeasure ''u1'') = Inl AssertionError \<and>
   (\<exists>m0 m1 st1.
      load Map.empty (init SuccessRateCompetencyMeasure ''u1'') ''s1'' = Inr m0 \<and>
      dto m0 \<noteq> None \<and>
      (\<exists>m2. update m0 (score_event (JFloat 1)) = Inr m2) \<and>
      (\<exists>es. get_events_list m0 = Inr es) \<and>
      save Map.empty m0 = Inr (m1, st1) \<and> dto m1 = None \<and>
      save st1 m1 = Inl AssertionError \<and>
      update m1 (score_event (JFloat 1)) = Inl AssertionError \<and>
      get_events_list m1 = Inl AssertionError)"
proof -
  let ?i = "init SuccessRateCompetencyMeasure ''u1''"
  let ?e = "score_event (JFloat 1)"
  let ?m0 = "\<lparr>cls = SuccessRateCompetencyMeasure, user_id = ''u1'',
              dto = Some \<lparr>dto_id = ''u1:s1:SuccessRateCompetencyMeasure'', dict = empty_dict\<rparr>\<rparr>"
  have ld: "load Map.empty ?i ''s1'' = Inr ?m0"
    by (simp add: load_def init_def create_key_name_def Dao_load_def)
  have a: "save Map.empty ?i = Inl AssertionError \<and> update ?i ?e = Inl AssertionError \<and>
           get_events_list ?i = Inl AssertionError"
    using unloaded_measure_asserts
      [of SuccessRateCompetencyMeasure "''u1''" ?i Map.empty ?e "''s1''"]
    by blast
  have b: "dto ?m0 \<noteq> None \<and> (\<exists>m1 st1. save Map.empty ?m0 = Inr (m1, st1)) \<and>
           (\<exists>m2. update ?m0 ?e = Inr m2) \<and> (\<exists>es. get_events_list ?m0 = Inr es)"
    using unloaded_measure_asserts
      [of SuccessRateCompetencyMeasure "''u1''" ?m0 Map.empty ?e "''s1''"] ld
    by auto
  then obtain m1 st1 where sv: "save Map.empty ?m0 = Inr (m1, st1)" by blast
  have c: "dto m1 = None"
    using unloaded_measure_asserts
      [of SuccessRateCompetencyMeasure "''u1''" ?m0 Map.empty ?e "''s1''"] sv
    by blast
  have d: "save st1 m1 = Inl AssertionError \<and> update m1 ?e = Inl AssertionError \<and>
           get_events_list m1 = Inl AssertionError"
    using unloaded_measure_asserts
      [of SuccessRateCompetencyMeasure "''u1''" m1 st1 ?e "''s1''"] c
    by blast
  from a b c d ld sv show ?thesis by blast
qed

subsection \<open>The composite key\<close>

lemma py_split_cut:
  "sep \<notin> set u \<Longrightarrow> py_split sep (Suc n) (u @ sep # rest) = u # py_split sep n rest"
proof -
  assume n: "sep \<notin> set u"
  have "takeWhile (\<lambda>c. c \<noteq> sep) (u @ sep # rest) = u @ takeWhile (\<lambda>c. c \<noteq> sep) (sep # rest)"
    using n by (intro takeWhile_append2) auto
  then have t: "takeWhile (\<lambda>c. c \<noteq> sep) (u @ sep # rest) = u"
    by simp
  have "dropWhile (\<lambda>c. c \<noteq> sep) (u @ sep # rest) = dropWhile (\<lambda>c. c \<noteq> sep) (sep # rest)"
    using n by (intro dropWhile_append2) auto
  then have d: "tl (dropWhile (\<lambda>c. c \<noteq> sep) (u @ sep # rest)) = rest"
    by simp
  show ?thesis
    by (simp only: py_split.simps t d) simp
qed

lemma py_split_2_triple:
  assumes "sep \<notin> set u" and "sep \<notin> set s"
  shows "py_split sep 2 (u @ sep # s @ sep # c) = [u, s, c]"
proof -
  have "py_split sep (Suc (Suc 0)) (u @ sep # s @ sep # c) = u # py_split sep (Suc 0) (s @ sep # c)"
    using assms(1) by (rule py_split_cut)
  also have "py_split sep (Suc 0) (s @ sep # c) = s # py_split sep 0 c"
    using assms(2) by (rule py_split_cut)
  finally show ?thesis by (simp add: numeral_2_eq_2)
qed

text \<open>
  Claim C4. For a user id, a skill id and a measure type name without the separator
  \<^verbatim>\<open>':'\<close>, \<^verbatim>\<open>create_key_name\<close> returns a key name, and splitting that name as \<^verbatim>\<open>safe_key\<close>
  does gives back exactly the three components; \<^verbatim>\<open>safe_key\<close> with the identity as
  transformation rebuilds the same key name.
\<close>

theorem key_roundtrip:
  assumes "CHR '':'' \<notin> set user" and "CHR '':'' \<notin> set skill" and "CHR '':'' \<notin> set cname"
  shows "\<exists>k. create_key_name user skill cname = Inr k \<and>
             split_key_name k = Inr (user, skill, cname) \<and>
             safe_key k (\<lambda>u. u) = Inr k"
proof -
  let ?k = "user @ '':'' @ skill @ '':'' @ cname"
  have c: "create_key_name user skill cname = Inr ?k"
    using assms by (simp add: create_key_name_def)
  have "py_split (CHR '':'') 2 (user @ CHR '':'' # skill @ CHR '':'' # cname) = [user, skill, cname]"
    using assms(1,2) by (rule py_split_2_triple)
  then have s: "split_key_name ?k = Inr (user, skill, cname)"
    by (simp add: split_key_name_def)
  have "safe_key ?k (\<lambda>u. u) = Inr ?k"
    unfolding safe_key_def s using c by simp
  with c s show ?thesis by blast
qed

theorem key_roundtrip_witness:
  "\<exists>k. create_key_name ''u1'' ''7'' ''SuccessRateCompetencyMeasure'' = Inr k \<and>
        split_key_name k = Inr (''u1'', ''7'', ''SuccessRateCompetencyMeasure'') \<and>
        safe_key k (\<lambda>u. u) = Inr k"
  using key_roundtrip [of "''u1''" "''7''" "''SuccessRateCompetencyMeasure''"] by simp

text \<open>
  Claim C5. \<^verbatim>\<open>create_key_name\<close> fails, with an assertion failure and no other exception,
  if and only if at least one of the user id, the skill id and the measure type name
  contains the separator \<^verbatim>\<open>':'\<close>; for separator-free components it returns the three
  joined by the separator.
\<close>

theorem create_key_name_fails_iff:
  "((create_key_name user skill cname = Inl AssertionError) =
      (CHR '':'' \<in> set user \<or> CHR '':'' \<in> set skill \<or> CHR '':'' \<in> set cname)) \<and>
   ((\<exists>e. create_key_name user skill cname = Inl e) =
      (create_key_name user skill cname = Inl AssertionError)) \<and>
   ((create_key_name user skill cname = Inr (user @ '':'' @ skill @ '':'' @ cname)) =
      (CHR '':'' \<notin> set user \<and> CHR '':'' \<notin> set skill \<and> CHR '':'' \<notin> set cname))"
  by (auto simp add: create_key_name_def)

text \<open>The separator in the user id, in the skill id, in the type name, and in none.\<close>

theorem create_key_name_fails_iff_witness:
  "create_key_name ''u:1'' ''7'' ''M'' = Inl AssertionError \<and>
   create_key_name ''u1'' '':7'' ''M'' = Inl AssertionError \<and>
   create_key_name ''u1'' ''7'' ''M:'' = Inl AssertionError \<and>
   create_key_name ''u1'' ''7'' ''M'' = Inr ''u1:7:M''"
  using create_key_name_fails_iff [of "''u:1''" "''7''" "''M''"]
    create_key_name_fails_iff [of "''u1''" "'':7''" "''M''"]
    create_key_name_fails_iff [of "''u1''" "''7''" "''M:''"]
    create_key_name_fails_iff [of "''u1''" "''7''" "''M''"]
  by simp

subsection \<open>Event ingestion\<close>

lemma zip_question_scores_lists:
  "zip_question_scores (JList qs) (JList ss) = Inr (map2 QuestionScore qs ss)"
  by (simp add: zip_question_scores_def py_zip_def case_prod_beta)

text \<open>
  Claim C6. The multi-item ingestor returns the empty list of question-score pairs, and
  no error, for every payload that is a bare list. So the listener, for such a payload
  of an \<^verbatim>\<open>attempt-lesson\<close> event or under the key \<^verbatim>\<open>values\<close> of a \<^verbatim>\<open>submit-assessment\<close>
  event, returns without error and leaves the datastore as it was.
\<close>

theorem many_items_bare_list:
  "get_questions_scores_from_many_items (JList xs) = Inr [] \<and>
   (loads payload = Inr (JList xs) \<longrightarrow>
      record_event_listener loads qd reg st ''attempt-lesson'' uid payload = (None, st)) \<and>
   (loads payload = Inr (JDict kvs) \<and> map_of kvs ''values'' = Some (JList xs) \<longrightarrow>
      record_event_listener loads qd reg st ''submit-assessment'' uid payload = (None, st))"
  by (simp add: get_questions_scores_from_many_items_def record_event_listener_def
      event_question_scores_def)

theorem many_items_bare_list_witness:
  "get_questions_scores_from_many_items (JList [JStr ''q1'', JFloat 1]) = Inr [] \<and>
   record_event_listener (\<lambda>p. Inr (JList [JStr ''q1'', JFloat 1])) (\<lambda>q. None)
     [SuccessRateCompetencyMeasure] Map.empty ''attempt-lesson'' ''u1'' ''[]'' =
     (None, Map.empty) \<and>
   record_event_listener (\<lambda>p. Inr (JDict [(''values'', JList [JStr ''q1'', JFloat 1])]))
     (\<lambda>q. None) [SuccessRateCompetencyMeasure] Map.empty ''submit-assessment'' ''u1'' ''[]'' =
     (None, Map.empty)"
  using many_items_bare_list
    [of "[JStr ''q1'', JFloat 1]" "\<lambda>p. Inr (JList [JStr ''q1'', JFloat 1])" "''[]''"
        "\<lambda>q. None" "[SuccessRateCompetencyMeasure]" Map.empty "''u1''" "[]"]
    many_items_bare_list
    [of "[JStr ''q1'', JFloat 1]"
        "\<lambda>p. Inr (JDict [(''values'', JList [JStr ''q1'', JFloat 1])])" "''[]''"
        "\<lambda>q. None" "[SuccessRateCompetencyMeasure]" Map.empty "''u1''"
        "[(''values'', JList [JStr ''q1'', JFloat 1])]"]
  by simp

text \<open>
  Claim C7. For every source tag other than \<^verbatim>\<open>tag-assessment\<close>, \<^verbatim>\<open>attempt-lesson\<close> and
  \<^verbatim>\<open>submit-assessment\<close>, whatever the user, the payload, the decoder, the question store,
  the registry and the datastore are, the listener returns without an error and the
  datastore is the one it was given.
\<close>

theorem unrecognized_source_ignored:
  assumes "source \<noteq> ''tag-assessment''" and "source \<noteq> ''attempt-lesson''"
    and "source \<noteq> ''submit-assessment''"
  shows "record_event_listener loads qd reg st source uid payload = (None, st)"
  using assms by (simp add: record_event_listener_def event_question_scores_def)

text \<open>An unknown tag, with a decoder that would fail and a question store that knows no
  question.\<close>

theorem unrecognized_source_ignored_witness:
  "record_event_listener (\<lambda>p. Inl ValueError) (\<lambda>q. None) [SuccessRateCompetencyMeasure]
     Map.empty ''enter-page'' ''u1'' ''{'' = (None, Map.empty)"
  using unrecognized_source_ignored
    [of "''enter-page''" "\<lambda>p. Inl ValueError" "\<lambda>q. None" "[SuccessRateCompetencyMeasure]"
        Map.empty "''u1''" "''{''"]
  by simp

text \<open>
  Claim C8. A single-item payload whose type is \<^verbatim>\<open>QuestionGroup\<close>, with a list of
  sub-question ids and a list of scores, yields the two lists zipped positionally: the
  i-th pair couples the i-th id with the i-th score, up to the length of the shorter list;
  three ids and three scores yield exactly three pairs. A single-item payload of any
  other type, with a question id and a score, yields exactly the one pair of the two.
\<close>

theorem single_item_question_scores:
  "(map_of kvs ''type'' = Some (JStr ''QuestionGroup'') \<and>
    map_of kvs ''quids'' = Some (JList qs) \<and>
    map_of kvs ''individualScores'' = Some (JList ss) \<longrightarrow>
      (\<exists>r. get_questions_scores_from_single_item (JDict kvs) = Inr r \<and>
           r = map2 QuestionScore qs ss \<and>
           length r = min (length qs) (length ss) \<and>
           (\<forall>i < length r. r ! i = QuestionScore (qs ! i) (ss ! i)) \<and>
           (length qs = 3 \<and> length ss = 3 \<longrightarrow>
              r = [QuestionScore (qs ! 0) (ss ! 0), QuestionScore (qs ! 1) (ss ! 1),
                   QuestionScore (qs ! 2) (ss ! 2)]))) \<and>
   (map_of kvs ''type'' = Some t \<and> t \<noteq> JStr ''QuestionGroup'' \<and>
    map_of kvs ''quid'' = Some q \<and> map_of kvs ''score'' = Some s \<longrightarrow>
      get_questions_scores_from_single_item (JDict kvs) = Inr [QuestionScore q s])"
proof (intro conjI impI)
  assume a: "map_of kvs ''type'' = Some (JStr ''QuestionGroup'') \<and>
    map_of kvs ''quids'' = Some (JList qs) \<and>
    map_of kvs ''individualScores'' = Some (JList ss)"
  let ?r = "map2 QuestionScore qs ss"
  have 1: "get_questions_scores_from_single_item (JDict kvs) = Inr ?r"
    using a by (simp add: get_questions_scores_from_single_item_def zip_question_scores_lists)
  have 2: "length ?r = min (length qs) (length ss)" by simp
  have 3: "\<forall>i < length ?r. ?r ! i = QuestionScore (qs ! i) (ss ! i)" by simp
  have 4: "length qs = 3 \<and> length ss = 3 \<longrightarrow>
              ?r = [QuestionScore (qs ! 0) (ss ! 0), QuestionScore (qs ! 1) (ss ! 1),
                   QuestionScore (qs ! 2) (ss ! 2)]"
  proof
    assume l: "length qs = 3 \<and> length ss = 3"
    then obtain a b c where qs: "qs = [a, b, c]"
      by (auto simp add: numeral_3_eq_3 length_Suc_conv)
    from l obtain x y z where ss: "ss = [x, y, z]"
      by (auto simp add: numeral_3_eq_3 length_Suc_conv)
    show "?r = [QuestionScore (qs ! 0) (ss ! 0), QuestionScore (qs ! 1) (ss ! 1),
                   QuestionScore (qs ! 2) (ss ! 2)]"
      by (simp add: qs ss)
  qed
  show "\<exists>r. get_questions_scores_from_single_item (JDict kvs) = Inr r \<and>
           r = map2 QuestionScore qs ss \<and>
           length r = min (length qs) (length ss) \<and>
           (\<forall>i < length r. r ! i = QuestionScore (qs ! i) (ss ! i)) \<and>
           (length qs = 3 \<and> length ss = 3 \<longrightarrow>
              r = [QuestionScore (qs ! 0) (ss ! 0), QuestionScore (qs ! 1) (ss ! 1),
                   QuestionScore (qs ! 2) (ss ! 2)])"
    by (rule exI [of _ ?r]) (intro conjI refl 1 2 3 4)
next
  assume "map_of kvs ''type'' = Some t \<and> t \<noteq> JStr ''QuestionGroup'' \<and>
    map_of kvs ''quid'' = Some q \<and> map_of kvs ''score'' = Some s"
  then show "get_questions_scores_from_single_item (JDict kvs) = Inr [QuestionScore q s]"
    by (simp add: get_questions_scores_from_single_item_def)
qed

text \<open>A group of three sub-questions, and a single multiple-choice question.\<close>

theorem single_item_question_scores_witness:
  "get_questions_scores_from_single_item
     (JDict [(''type'', JStr ''QuestionGroup''),
             (''quids'', JList [JStr ''q1'', JStr ''q2'', JStr ''q3'']),
             (''individualScores'', JList [JInt 1, JInt 0, JFloat (1 / 2)])]) =
     Inr [QuestionScore (JStr ''q1'') (JInt 1), QuestionScore (JStr ''q2'') (JInt 0),
          QuestionScore (JStr ''q3'') (JFloat (1 / 2))] \<and>
   get_questions_scores_from_single_item
     (JDict [(''type'', JStr ''McQuestion''), (''quid'', JStr ''q1''), (''score'', JFloat (4 / 5))]) =
     Inr [QuestionScore (JStr ''q1'') (JFloat (4 / 5))]"
  using single_item_question_scores
    [of "[(''type'', JStr ''QuestionGroup''),
          (''quids'', JList [JStr ''q1'', JStr ''q2'', JStr ''q3'']),
          (''individualScores'', JList [JInt 1, JInt 0, JFloat (1 / 2)])]"
        "[JStr ''q1'', JStr ''q2'', JStr ''q3'']" "[JInt 1, JInt 0, JFloat (1 / 2)]"]
    single_item_question_scores
    [of "[(''type'', JStr ''McQuestion''), (''quid'', JStr ''q1''), (''score'', JFloat (4 / 5))]"
        "[]" "[]" "JStr ''McQuestion''" "JStr ''q1''" "JFloat (4 / 5)"]
  by simp

subsection \<open>A question that the question store does not hold\<close>

lemma group_by_skill_absent:
  "\<exists>qs \<in> set qss. qd (quid qs) = None \<Longrightarrow> group_by_skill qd qss acc = Inl AttributeError"
proof (induction qss arbitrary: acc)
  case Nil
  then show ?case by simp
next
  case (Cons a qss)
  show ?case
  proof (cases "qd (quid a)")
    case None
    then show ?thesis by simp
  next
    case (Some q)
    with Cons.prems have "\<exists>qs \<in> set qss. qd (quid qs) = None" by auto
    from Cons.IH [OF this] Some show ?thesis by simp
  qed
qed

text \<open>
  Claim C10. For an event with a recognised source tag whose payload decodes and yields
  question-score pairs, one of which has a question id for which \<^verbatim>\<open>QuestionDAO.load\<close>
  returns \<^verbatim>\<open>None\<close>, the listener raises \<^verbatim>\<open>AttributeError\<close> (the access to \<^verbatim>\<open>.dict\<close> of
  \<^verbatim>\<open>None\<close>); it does so while grouping the scores by skill, before any Updater is built,
  whatever the registry is, so the datastore is the one it was given: no measure is
  updated for any pair of the event, also not for the pairs whose questions exist.
\<close>

theorem absent_question_aborts_event:
  assumes "event_question_scores loads source payload = Some (Inr qss)"
    and "\<exists>qs \<in> set qss. qd (quid qs) = None"
  shows "record_event_listener loads qd reg st source uid payload = (Some AttributeError, st)"
  using assms(1) group_by_skill_absent [OF assms(2)]
  by (simp add: record_event_listener_def)

text \<open>A graded lesson with two questions: \<^verbatim>\<open>q1\<close> exists and is tagged with the skill
  \<^verbatim>\<open>s1\<close>, \<^verbatim>\<open>q2\<close> is not in the question store. Nothing is recorded for \<^verbatim>\<open>q1\<close> either.\<close>

theorem absent_question_aborts_event_witness:
  "record_event_listener
     (\<lambda>p. Inr (JDict [(''quids'', JDict [(''i1'', JStr ''q1''), (''i2'', JStr ''q2'')]),
                      (''individualScores'', JDict [(''i1'', JFloat 1), (''i2'', JFloat 0)])]))
     (\<lambda>q. if q = JStr ''q1'' then Some \<lparr>skills = Some [''s1'']\<rparr> else None)
     [SuccessRateCompetencyMeasure] Map.empty ''attempt-lesson'' ''u1'' ''{}'' =
     (Some AttributeError, Map.empty)"
proof -
  let ?loads = "\<lambda>p :: string. Inr (JDict [(''quids'', JDict [(''i1'', JStr ''q1''), (''i2'', JStr ''q2'')]),
                      (''individualScores'', JDict [(''i1'', JFloat 1), (''i2'', JFloat 0)])])
                 :: error + jval"
  let ?qd = "\<lambda>q. if q = JStr ''q1'' then Some \<lparr>skills = Some [''s1'']\<rparr> else None"
  let ?qss = "[QuestionScore (JStr ''q1'') (JFloat 1), QuestionScore (JStr ''q2'') (JFloat 0)]"
  have a: "event_question_scores ?loads ''attempt-lesson'' ''{}'' = Some (Inr ?qss)"
    by (simp add: event_question_scores_def get_questions_scores_from_many_items_def)
  have b: "\<exists>qs \<in> set ?qss. ?qd (quid qs) = None"
    by simp
  from absent_question_aborts_event [OF a b] show ?thesis .
qed

end
